theory Spec2Isabelle
  imports Complex_Main "HOL-Library.Char_ord" "HOL-Library.List_Lexorder"
begin

section \<open>Storage: directory trees and POSIX path functions\<close>

text \<open>
  A directory is the list of its entries in listing order (the order of \<^verbatim>\<open>os.scandir\<close>).
  An entry is a regular file or a subdirectory with its own entries.  Strings are byte
  strings; Python compares strings by code point, which for UTF-8 is the byte order
  used here.
\<close>

datatype node = File string | Dir string "node list"

fun node_name :: "node \<Rightarrow> string" where
  "node_name (File n) = n"
| "node_name (Dir n sub) = n"

fun children :: "node \<Rightarrow> node list" where
  "children (File n) = []"
| "children (Dir n sub) = sub"

fun is_file :: "node \<Rightarrow> bool" where
  "is_file (File n) = True"
| "is_file (Dir n sub) = False"

definition lookup_entry :: "node list \<Rightarrow> string \<Rightarrow> node option" where
  "lookup_entry entries n = find (\<lambda>e. node_name e = n) entries"

text \<open>\<^verbatim>\<open>os.path.join(a, b)\<close> of \<^verbatim>\<open>posixpath\<close>, for two arguments.\<close>

definition path_join :: "string \<Rightarrow> string \<Rightarrow> string" where
  "path_join a b =
     (if b \<noteq> [] \<and> hd b = CHR ''/'' then b
      else if a = [] \<or> last a = CHR ''/'' then a @ b
      else a @ ''/'' @ b)"

text \<open>\<^verbatim>\<open>str.lower\<close>, on ASCII letters.\<close>

definition lower_char :: "char \<Rightarrow> char" where
  "lower_char c =
     (case map_of (zip ''ABCDEFGHIJKLMNOPQRSTUVWXYZ'' ''abcdefghijklmnopqrstuvwxyz'') c of
        None \<Rightarrow> c
      | Some l \<Rightarrow> l)"

definition lower :: "string \<Rightarrow> string" where
  "lower s = map lower_char s"

subsection \<open>fnmatch and glob\<close>

text \<open>
  \<^verbatim>\<open>fnmatch.fnmatch(name, pat)\<close> for patterns built from literal characters,
  \<^verbatim>\<open>*\<close> (any run of characters) and \<^verbatim>\<open>?\<close> (any one character).  The patterns
  of this program are fixed strings and a run of digits, so a bracket class never occurs
  in them.
\<close>

fun fnmatch :: "string \<Rightarrow> string \<Rightarrow> bool" where
  "fnmatch [] [] = True"
| "fnmatch (c # cs) [] = False"
| "fnmatch [] (p # ps) = (p = CHR ''*'' \<and> fnmatch [] ps)"
| "fnmatch (c # cs) (p # ps) =
     (if p = CHR ''*'' then fnmatch (c # cs) ps \<or> fnmatch cs (p # ps)
      else (p = CHR ''?'' \<or> p = c) \<and> fnmatch cs ps)"

definition ishidden :: "string \<Rightarrow> bool" where
  "ishidden s = (s \<noteq> [] \<and> hd s = CHR ''.'')"

text \<open>
  \<^verbatim>\<open>glob._glob1\<close>: the names of a directory that match the pattern; a name that begins
  with a dot is only matched by a pattern that begins with a dot.
\<close>

definition glob1 :: "string list \<Rightarrow> string \<Rightarrow> string list" where
  "glob1 names pattern =
     filter (\<lambda>n. fnmatch n pattern)
       (if ishidden pattern then names else filter (\<lambda>n. \<not> ishidden n) names)"

text \<open>
  \<^verbatim>\<open>glob.glob(os.path.join(directory, pattern))\<close> for a pattern without a slash and a
  directory path without glob metacharacters, where \<open>entries\<close> is the content of the
  directory.  glob splits the path at its last slash, lists the directory part (trailing
  slashes stripped unless it consists of slashes only) and joins each matching name to it.
  Subdirectories are matched like files.
\<close>

definition rstrip_sep :: "string \<Rightarrow> string" where
  "rstrip_sep s = rev (dropWhile (\<lambda>c. c = CHR ''/'') (rev s))"

definition glob_dirname :: "string \<Rightarrow> string" where
  "glob_dirname directory =
     (let head = (if directory = [] \<or> last directory = CHR ''/'' then directory
                  else directory @ ''/'')
      in if head \<noteq> [] \<and> (\<exists>c \<in> set head. c \<noteq> CHR ''/'') then rstrip_sep head else head)"

definition glob :: "string \<Rightarrow> node list \<Rightarrow> string \<Rightarrow> string list" where
  "glob directory entries pattern =
     map (path_join (glob_dirname directory)) (glob1 (map node_name entries) pattern)"

section \<open>Thumbnail discovery\<close>

text \<open>
  \<^verbatim>\<open>find_first_match\<close>: the smallest match of a glob pattern in the directory, or
  \<open>None\<close>.
\<close>

definition find_first_match :: "string \<Rightarrow> node list \<Rightarrow> string \<Rightarrow> string option" where
  "find_first_match directory entries pattern =
     (let matches = glob directory entries pattern
      in if matches \<noteq> [] then Some (hd (sort matches)) else None)"

text \<open>
  \<^verbatim>\<open>find_in_images_dir\<close>: \<^verbatim>\<open>os.path.exists\<close> holds for an entry named
  \<^verbatim>\<open>images\<close> of either kind; globbing inside a regular file finds nothing.
\<close>

definition find_in_images_dir :: "string \<Rightarrow> node list \<Rightarrow> string option" where
  "find_in_images_dir directory entries =
     (let images_dir = path_join directory ''images''
      in case lookup_entry entries ''images'' of
           None \<Rightarrow> None
         | Some nd \<Rightarrow>
             (let image_files =
                    concat (map (\<lambda>ext. glob images_dir (children nd) (''*'' @ ext))
                      [''.png'', ''.jpg'', ''.jpeg''])
              in if image_files \<noteq> [] then Some (hd (sort image_files)) else None))"

text \<open>
  The loop of \<^verbatim>\<open>find_thumbnail\<close> over its list of strategies: a strategy's result is
  taken when it is truthy, that is, neither \<^verbatim>\<open>None\<close> nor the empty string.
\<close>

fun try_strategies :: "(unit \<Rightarrow> string option) list \<Rightarrow> string option" where
  "try_strategies [] = None"
| "try_strategies (strategy # rest) =
     (case strategy () of
        Some thumbnail \<Rightarrow> if thumbnail \<noteq> [] then Some thumbnail else try_strategies rest
      | None \<Rightarrow> try_strategies rest)"

definition search_strategies :: "string \<Rightarrow> node list \<Rightarrow> string \<Rightarrow> (unit \<Rightarrow> string option) list" where
  "search_strategies directory entries thing_id =
     [\<lambda>_. find_in_images_dir directory entries,
      \<lambda>_. find_first_match directory entries ''*_Thumbnail*.png'',
      \<lambda>_. find_first_match directory entries (''*'' @ thing_id @ ''*Thumbnail*.png''),
      \<lambda>_. find_first_match directory entries ''*.png'']"

definition find_thumbnail :: "string \<Rightarrow> node list \<Rightarrow> string \<Rightarrow> string option" where
  "find_thumbnail directory entries thing_id =
     try_strategies (search_strategies directory entries thing_id)"

text \<open>
  The identifier of \<^verbatim>\<open>get_model_info\<close>: \<^verbatim>\<open>re.search(r'(\d+)', model_name)\<close>, the
  first maximal run of (ASCII) digits, or \<open>None\<close>.
\<close>

definition is_digit :: "char \<Rightarrow> bool" where
  "is_digit c = (CHR ''0'' \<le> c \<and> c \<le> CHR ''9'')"

definition extract_thing_id :: "string \<Rightarrow> string option" where
  "extract_thing_id model_name =
     (let run = takeWhile is_digit (dropWhile (\<lambda>c. \<not> is_digit c) model_name)
      in if run = [] then None else Some run)"

text \<open>\<^verbatim>\<open>thing_id or ""\<close>, the argument \<^verbatim>\<open>get_model_info\<close> passes on.\<close>

definition or_empty :: "string option \<Rightarrow> string" where
  "or_empty x = (case x of None \<Rightarrow> [] | Some s \<Rightarrow> s)"

section \<open>Walking the tree: description and model files\<close>

text \<open>
  \<^verbatim>\<open>os.walk(top_dir)\<close>, top-down: the pair (root, files) of the directory itself first,
  then the walk of each subdirectory in listing order; \<open>files\<close> are the names of the
  entries that are not directories.
\<close>

definition file_names :: "node list \<Rightarrow> string list" where
  "file_names entries = map node_name (filter is_file entries)"

fun walk :: "string \<Rightarrow> node list \<Rightarrow> (string \<times> string list) list"
  and walk_subdirs :: "string \<Rightarrow> node list \<Rightarrow> (string \<times> string list) list" where
  "walk top_dir entries = (top_dir, file_names entries) # walk_subdirs top_dir entries"
| "walk_subdirs top_dir [] = []"
| "walk_subdirs top_dir (File n # rest) = walk_subdirs top_dir rest"
| "walk_subdirs top_dir (Dir n sub # rest) =
     walk (path_join top_dir n) sub @ walk_subdirs top_dir rest"

text \<open>The (root, file) pairs in the order the nested loops over a walk visit them.\<close>

definition walk_pairs :: "(string \<times> string list) list \<Rightarrow> (string \<times> string) list" where
  "walk_pairs w = concat (map (\<lambda>(root_dir, files). map (Pair root_dir) files) w)"

definition readme_patterns :: "string list" where
  "readme_patterns =
     [''README.txt'', ''readme.txt'', ''ReadMe.txt'', ''Readme.txt'',
      ''README.md'', ''readme.md'', ''ReadMe.md'', ''Readme.md'',
      ''instructions.txt'', ''Instructions.txt'',
      ''description.txt'', ''Description.txt'']"

text \<open>
  \<^verbatim>\<open>os.path.exists(os.path.join(directory, name))\<close> for a plain name: an entry of that
  name, of either kind, is in the directory.
\<close>

definition path_exists :: "node list \<Rightarrow> string \<Rightarrow> bool" where
  "path_exists entries n = (lookup_entry entries n \<noteq> None)"

text \<open>
  \<^verbatim>\<open>find_readme\<close>: the first candidate that exists in the root; otherwise the first
  file of the walk, which starts at the directory itself, whose lowercased name is a
  lowercased candidate.
\<close>

definition find_readme :: "string \<Rightarrow> node list \<Rightarrow> string option" where
  "find_readme directory entries =
     (case find (path_exists entries) readme_patterns of
        Some pattern \<Rightarrow> Some (path_join directory pattern)
      | None \<Rightarrow>
          (let lowercase_patterns = map lower readme_patterns
           in case find (\<lambda>(root_dir, file). lower file \<in> set lowercase_patterns)
                     (walk_pairs (walk directory entries)) of
                Some (root_dir, file) \<Rightarrow> Some (path_join root_dir file)
              | None \<Rightarrow> None))"


text \<open>
  \<^verbatim>\<open>get_readme_content\<close>.  \<open>read_file\<close> is the storage's answer to opening and
  reading a path as UTF-8 with replacement of invalid bytes: the text, or the message of
  the exception raised (\<open>Inl\<close>).
\<close>

definition get_readme_content ::
  "(string \<Rightarrow> string + string) \<Rightarrow> string \<Rightarrow> node list \<Rightarrow> string option \<times> string" where
  "get_readme_content read_file directory entries =
     (let readme_path = find_readme directory entries
      in (readme_path,
          case readme_path of
            None \<Rightarrow> []
          | Some p \<Rightarrow>
              if p = [] then []
              else (case read_file p of
                      Inr content \<Rightarrow> content
                    | Inl e \<Rightarrow> ''Error reading README: '' @ e)))"

subsection \<open>splitext and relpath\<close>

text \<open>\<^verbatim>\<open>str.rfind\<close> for one character: the last index, or -1.\<close>

definition rfind :: "char \<Rightarrow> string \<Rightarrow> int" where
  "rfind c s =
     (if c \<in> set s then int (length s) - 1 - int (length (takeWhile (\<lambda>x. x \<noteq> c) (rev s)))
      else - 1)"

text \<open>
  \<^verbatim>\<open>posixpath.splitext\<close>: the extension starts at the last dot, provided that dot comes
  after the last slash and some character between the slash and the dot is not a dot.
\<close>

definition splitext :: "string \<Rightarrow> string \<times> string" where
  "splitext p =
     (let sepIndex = rfind CHR ''/'' p;
          dotIndex = rfind CHR ''.'' p
      in if dotIndex > sepIndex \<and>
            list_ex (\<lambda>c. c \<noteq> CHR ''.'')
              (take (nat (dotIndex - (sepIndex + 1))) (drop (nat (sepIndex + 1)) p))
         then (take (nat dotIndex) p, drop (nat dotIndex) p)
         else (p, []))"

text \<open>\<^verbatim>\<open>str.split\<close> at one character and \<^verbatim>\<open>str.join\<close>.\<close>

fun split_on :: "char \<Rightarrow> string \<Rightarrow> string list" where
  "split_on c [] = [[]]"
| "split_on c (x # xs) =
     (if x = c then [] # split_on c xs
      else (case split_on c xs of
              [] \<Rightarrow> [[x]]
            | w # ws \<Rightarrow> (x # w) # ws))"

fun sep_join :: "string list \<Rightarrow> string" where
  "sep_join [] = []"
| "sep_join [x] = x"
| "sep_join (x # y # ys) = x @ ''/'' @ sep_join (y # ys)"

text \<open>
  The loop of \<^verbatim>\<open>posixpath.normpath\<close> over the components of a path: empty components
  and single dots are dropped, a double dot removes the component before it (at the root
  of an absolute path it is dropped, at the start of a relative path it is kept).
\<close>

definition norm_step :: "bool \<Rightarrow> string list \<Rightarrow> string \<Rightarrow> string list" where
  "norm_step initial_slashes new_comps part =
     (if part = [] \<or> part = ''.'' then new_comps
      else if part \<noteq> ''..'' \<or> (\<not> initial_slashes \<and> new_comps = []) \<or>
              (new_comps \<noteq> [] \<and> last new_comps = ''..'')
           then new_comps @ [part]
      else if new_comps \<noteq> [] then butlast new_comps
      else new_comps)"

definition normpath_comps :: "string \<Rightarrow> string list" where
  "normpath_comps p =
     foldl (norm_step (p \<noteq> [] \<and> hd p = CHR ''/'')) [] (split_on CHR ''/'' p)"

text \<open>
  The components of \<^verbatim>\<open>os.path.abspath(p)\<close>, where \<open>cwd\<close> is the (absolute) working
  directory: the path is joined to it unless it is absolute, and normalised.
\<close>

definition abspath_comps :: "string \<Rightarrow> string \<Rightarrow> string list" where
  "abspath_comps cwd p = normpath_comps (path_join cwd p)"

fun commonprefix :: "string list \<Rightarrow> string list \<Rightarrow> string list" where
  "commonprefix (x # xs) (y # ys) = (if x = y then x # commonprefix xs ys else [])"
| "commonprefix xs ys = []"

text \<open>\<^verbatim>\<open>os.path.relpath(path, start)\<close> for a non-empty path.\<close>

definition relpath :: "string \<Rightarrow> string \<Rightarrow> string \<Rightarrow> string" where
  "relpath cwd path start =
     (let start_list = abspath_comps cwd start;
          path_list = abspath_comps cwd path;
          i = length (commonprefix start_list path_list);
          rel_list = replicate (length start_list - i) ''..'' @ drop i path_list
      in if rel_list = [] then ''.'' else sep_join rel_list)"

subsection \<open>Model files\<close>

record app_config =
  model_extensions :: "string list"
  image_extensions :: "string list"
  default_category :: string

definition config :: app_config where
  "config = \<lparr> model_extensions = [''.stl'', ''.obj'', ''.3mf''],
              image_extensions = [''.png'', ''.jpg'', ''.jpeg''],
              default_category = ''Uncategorized'' \<rparr>"

definition find_model_files :: "string \<Rightarrow> string \<Rightarrow> node list \<Rightarrow> (string \<times> string) list" where
  "find_model_files cwd directory entries =
     map (\<lambda>(root_dir, file).
            let abs_path = path_join root_dir file;
                rel_path = relpath cwd abs_path directory
            in (rel_path, abs_path))
       (filter (\<lambda>(root_dir, file). lower (snd (splitext file)) \<in> set (model_extensions config))
          (walk_pairs (walk directory entries)))"

record model_info =
  name :: string
  path :: string
  thing_id :: "string option"
  thumbnail_path :: "string option"
  model_files :: "(string \<times> string) list"
  model_count :: nat
  readme_path :: "string option"
  readme_content :: string

definition get_model_info ::
  "(string \<Rightarrow> string + string) \<Rightarrow> string \<Rightarrow> string \<Rightarrow> node list \<Rightarrow> string \<Rightarrow> model_info" where
  "get_model_info read_file cwd model_path entries model_name =
     (let thing_id = extract_thing_id model_name;
          thumbnail_path = find_thumbnail model_path entries (or_empty thing_id);
          model_files = find_model_files cwd model_path entries;
          (readme_path, readme_content) = get_readme_content read_file model_path entries
      in \<lparr> name = model_name, path = model_path, thing_id = thing_id,
           thumbnail_path = thumbnail_path, model_files = model_files,
           model_count = length model_files, readme_path = readme_path,
           readme_content = readme_content \<rparr>)"

section \<open>Thumbnail candidates\<close>

text \<open>
  The matches each of the four strategies of \<^verbatim>\<open>find_thumbnail\<close> sorts, in priority
  order: the image files of the \<^verbatim>\<open>images\<close> entry, then three glob patterns in the
  directory itself.
\<close>

definition images_candidates :: "string \<Rightarrow> node list \<Rightarrow> string list" where
  "images_candidates directory entries =
     (case lookup_entry entries ''images'' of
        None \<Rightarrow> []
      | Some nd \<Rightarrow>
          concat (map (\<lambda>ext. glob (path_join directory ''images'') (children nd) (''*'' @ ext))
            [''.png'', ''.jpg'', ''.jpeg'']))"

definition strategy_candidates :: "string \<Rightarrow> node list \<Rightarrow> string \<Rightarrow> string list list" where
  "strategy_candidates directory entries tid =
     [images_candidates directory entries,
      glob directory entries ''*_Thumbnail*.png'',
      glob directory entries (''*'' @ tid @ ''*Thumbnail*.png''),
      glob directory entries ''*.png'']"


text \<open>
  The thumbnail strategies as the specification words them: the identifier strategy is
  present only when an identifier was extracted.
\<close>

definition search_strategies_spec ::
  "string \<Rightarrow> node list \<Rightarrow> string option \<Rightarrow> (unit \<Rightarrow> string option) list" where
  "search_strategies_spec directory entries ident =
     [\<lambda>_. find_in_images_dir directory entries,
      \<lambda>_. find_first_match directory entries ''*_Thumbnail*.png''] @
     (case ident of
        None \<Rightarrow> []
      | Some d \<Rightarrow> [\<lambda>_. find_first_match directory entries (''*'' @ d @ ''*Thumbnail*.png'')]) @
     [\<lambda>_. find_first_match directory entries ''*.png'']"

text \<open>
  The files of the \<^verbatim>\<open>images\<close> subdirectory whose extension is an image extension, as
  the specification words the first strategy.
\<close>

definition image_extension_files :: "string \<Rightarrow> node list \<Rightarrow> string list" where
  "image_extension_files directory entries =
     (case lookup_entry entries ''images'' of
        None \<Rightarrow> []
      | Some nd \<Rightarrow>
          map (path_join (path_join directory ''images''))
            (filter (\<lambda>n. snd (splitext n) \<in> set (image_extensions config))
               (file_names (children nd))))"

section \<open>Geometry: normalising a loaded mesh\<close>

text \<open>
  Coordinates are float64 values.  Finite values are modelled by the reals they denote
  (rounding is not modelled); the three non-finite values are kept apart, because numpy
  arithmetic produces them instead of raising.
\<close>

datatype fl = Fin real | PInf | NInf | NaN

text \<open>
  True division of two finite numpy scalars: division by zero gives an infinity (or NaN
  for 0/0) and a RuntimeWarning, not an exception.
\<close>

definition fl_div :: "real \<Rightarrow> real \<Rightarrow> fl" where
  "fl_div a b =
     (if b \<noteq> 0 then Fin (a / b)
      else if a > 0 then PInf else if a < 0 then NInf else NaN)"

text \<open>The product of a scale and a finite coordinate.\<close>

definition fl_mul :: "fl \<Rightarrow> real \<Rightarrow> fl" where
  "fl_mul s c =
     (case s of
        Fin r \<Rightarrow> Fin (r * c)
      | PInf \<Rightarrow> (if c > 0 then PInf else if c < 0 then NInf else NaN)
      | NInf \<Rightarrow> (if c > 0 then NInf else if c < 0 then PInf else NaN)
      | NaN \<Rightarrow> NaN)"

type_synonym vec3 = "real \<times> real \<times> real"

record 'a mesh =
  vertices :: "('a \<times> 'a \<times> 'a) list"
  faces :: "(nat \<times> nat \<times> nat) list"

text \<open>\<^verbatim>\<open>apply_translation\<close> adds a vector to every vertex.\<close>

definition apply_translation :: "vec3 \<Rightarrow> real mesh \<Rightarrow> real mesh" where
  "apply_translation t m =
     (case t of (tx, ty, tz) \<Rightarrow>
        m\<lparr>vertices := map (\<lambda>(a, b, c). (a + tx, b + ty, c + tz)) (vertices m)\<rparr>)"

text \<open>\<^verbatim>\<open>apply_scale\<close> multiplies every coordinate by the scale.\<close>

definition apply_scale :: "fl \<Rightarrow> real mesh \<Rightarrow> fl mesh" where
  "apply_scale s m =
     \<lparr>vertices = map (\<lambda>(a, b, c). (fl_mul s a, fl_mul s b, fl_mul s c)) (vertices m),
      faces = faces m\<rparr>"

text \<open>
  \<^verbatim>\<open>extents\<close>: the edge lengths of the axis-aligned bounding box of the vertices;
  \<^verbatim>\<open>None\<close> for a mesh without vertices.
\<close>

definition coord_range :: "real list \<Rightarrow> real" where
  "coord_range cs = Max (set cs) - Min (set cs)"

definition extents :: "real mesh \<Rightarrow> vec3 option" where
  "extents m =
     (if vertices m = [] then None
      else Some (coord_range (map fst (vertices m)),
                 coord_range (map (\<lambda>v. fst (snd v)) (vertices m)),
                 coord_range (map (\<lambda>v. snd (snd v)) (vertices m))))"

text \<open>
  The normalisation of \<^verbatim>\<open>browser_page\<close>:
  \<^verbatim>\<open>tm_mesh.apply_translation(-tm_mesh.center_mass)\<close>,
  \<^verbatim>\<open>scale = 100.0 / max(tm_mesh.extents)\<close>, \<^verbatim>\<open>tm_mesh.apply_scale(scale)\<close>.
  The centre of mass is computed by the mesh library and is a parameter here.  The
  quotient is taken unconditionally.  \<^verbatim>\<open>max(None)\<close> raises a TypeError, which the
  surrounding \<^verbatim>\<open>try\<close> catches (\<open>Inl\<close>).
\<close>

definition normalize_mesh :: "(real mesh \<Rightarrow> vec3) \<Rightarrow> real mesh \<Rightarrow> string + fl mesh" where
  "normalize_mesh center_mass tm_mesh =
     (let (cx, cy, cz) = center_mass tm_mesh;
          centred = apply_translation (- cx, - cy, - cz) tm_mesh
      in case extents centred of
           None \<Rightarrow> Inl ''TypeError''
         | Some (ex, ey, ez) \<Rightarrow>
             (let scale = fl_div 100 (max ex (max ey ez))
              in Inr (apply_scale scale centred)))"

text \<open>
  Modelled from the spec: the mass centroid as the mean of all vertex positions.  The
  program itself takes the centre of mass from the mesh library.
\<close>

definition vertex_mean :: "real mesh \<Rightarrow> vec3" where
  "vertex_mean m =
     (let n = real (length (vertices m))
      in (sum_list (map fst (vertices m)) / n,
          sum_list (map (\<lambda>v. fst (snd v)) (vertices m)) / n,
          sum_list (map (\<lambda>v. snd (snd v)) (vertices m)) / n))"

text \<open>The largest extent of a mesh with finite vertices (0 for a mesh without vertices).\<close>

definition max_extent :: "real mesh \<Rightarrow> real" where
  "max_extent m =
     (case extents m of None \<Rightarrow> 0 | Some (ex, ey, ez) \<Rightarrow> max ex (max ey ez))"

text \<open>Finite meshes among float meshes, and scaling by a finite factor.\<close>

definition fin_mesh :: "real mesh \<Rightarrow> fl mesh" where
  "fin_mesh m =
     \<lparr>vertices = map (\<lambda>(a, b, c). (Fin a, Fin b, Fin c)) (vertices m), faces = faces m\<rparr>"

definition scale_mesh :: "real \<Rightarrow> real mesh \<Rightarrow> real mesh" where
  "scale_mesh s m = m\<lparr>vertices := map (\<lambda>(a, b, c). (s * a, s * b, s * c)) (vertices m)\<rparr>"

definition is_finite :: "fl \<Rightarrow> bool" where
  "is_finite v = (case v of Fin r \<Rightarrow> True | _ \<Rightarrow> False)"

text \<open>The translation that \<^verbatim>\<open>browser_page\<close> applies: by the negated centre of mass.\<close>

definition centre_mesh :: "(real mesh \<Rightarrow> vec3) \<Rightarrow> real mesh \<Rightarrow> real mesh" where
  "centre_mesh center_mass m =
     (case center_mass m of (cx, cy, cz) \<Rightarrow> apply_translation (- cx, - cy, - cz) m)"

section \<open>The 3D viewer: figure, style and preview\<close>

text \<open>The attributes of the \<^verbatim>\<open>Mesh3d\<close> trace the viewer sets or reads.\<close>

record mesh3d =
  coord_x :: "fl list"
  coord_y :: "fl list"
  coord_z :: "fl list"
  face_ijk :: "(nat list \<times> nat list \<times> nat list) option"
  intensity :: "fl list option"
  colorscale :: "string option"
  color :: "string option"
  opacity :: real

text \<open>The figure built from the normalised mesh: coloured by height.\<close>

definition trimesh_figure :: "fl mesh \<Rightarrow> mesh3d" where
  "trimesh_figure tm =
     \<lparr>coord_x = map fst (vertices tm),
      coord_y = map (\<lambda>v. fst (snd v)) (vertices tm),
      coord_z = map (\<lambda>v. snd (snd v)) (vertices tm),
      face_ijk = Some (map fst (faces tm), map (\<lambda>f. fst (snd f)) (faces tm),
                       map (\<lambda>f. snd (snd f)) (faces tm)),
      intensity = Some (map (\<lambda>v. snd (snd v)) (vertices tm)),
      colorscale = Some ''Viridis'',
      color = None,
      opacity = 1\<rparr>"

text \<open>
  The figure of the fallback loader (and of \<^verbatim>\<open>display_model_details\<close>): the raw
  coordinates in one colour.
\<close>

definition fallback_figure :: "real list \<times> real list \<times> real list \<Rightarrow> mesh3d" where
  "fallback_figure xyz =
     (case xyz of (px, py, pz) \<Rightarrow>
        \<lparr>coord_x = map Fin px, coord_y = map Fin py, coord_z = map Fin pz,
         face_ijk = None, intensity = None, colorscale = None,
         color = Some ''lightblue'', opacity = 8 / 10\<rparr>)"


text \<open>Python's \<^verbatim>\<open>s in t\<close> on strings.\<close>

fun substring :: "string \<Rightarrow> string \<Rightarrow> bool" where
  "substring s [] = (s = [])"
| "substring s (c # cs) = (take (length s) (c # cs) = s \<or> substring s cs)"

text \<open>
  \<^verbatim>\<open>hasattr(fig.data[0], 'intensity')\<close>.  It holds when the attribute was set; whether
  it holds for a trace whose intensity was never set depends on the plotting library
  (\<open>declared\<close>: the trace class declares the attribute).
\<close>

definition hasattr_intensity :: "bool \<Rightarrow> mesh3d \<Rightarrow> bool" where
  "hasattr_intensity declared fig = (declared \<or> intensity fig \<noteq> None)"

text \<open>
  The update of the figure from the two widgets.  The opacity is the value of a slider
  whose range is 0.1 to 1.0; the code passes it on as it is.
\<close>

definition update_style :: "bool \<Rightarrow> string \<Rightarrow> real \<Rightarrow> mesh3d \<Rightarrow> mesh3d" where
  "update_style declared color_option opacity_value fig =
     (if hasattr_intensity declared fig \<and> \<not> substring ''Solid'' color_option
      then fig\<lparr>colorscale := Some (lower color_option), opacity := opacity_value\<rparr>
      else if substring ''Solid Blue'' color_option
      then fig\<lparr>colorscale := None, intensity := None, color := Some ''royalblue'',
               opacity := opacity_value\<rparr>
      else if substring ''Solid Green'' color_option
      then fig\<lparr>colorscale := None, intensity := None, color := Some ''mediumseagreen'',
               opacity := opacity_value\<rparr>
      else fig)"


subsection \<open>Preview of a model file\<close>

text \<open>
  What a preview puts on the page, in order, together with the calls of the two mesh
  loaders.
\<close>

datatype event =
    Write string
  | Info string
  | Error string
  | TrimeshLoad string
  | StlLoad string
  | PlotlyChart mesh3d
  | DownloadButton string

text \<open>
  The collaborators of the viewer: the two loaders (a mesh, or the message of the
  exception raised), the library's centre of mass, and opening a file for the download
  button (\<open>Some\<close>: the message of the exception raised).
\<close>

record viewer_env =
  trimesh_load :: "string \<Rightarrow> string + real mesh"
  center_mass :: "real mesh \<Rightarrow> vec3"
  stl_load :: "string \<Rightarrow> string + real list \<times> real list \<times> real list"
  open_rb :: "string \<Rightarrow> string option"
  intensity_declared :: bool

definition upper_char :: "char \<Rightarrow> char" where
  "upper_char c =
     (case map_of (zip ''abcdefghijklmnopqrstuvwxyz'' ''ABCDEFGHIJKLMNOPQRSTUVWXYZ'') c of
        None \<Rightarrow> c
      | Some u \<Rightarrow> u)"

definition upper :: "string \<Rightarrow> string" where
  "upper s = map upper_char s"

definition unsupported_message :: "string \<Rightarrow> string" where
  "unsupported_message tag =
     ''Preview for '' @ tag @
     '' files is currently only available for download. You can download the file to view it in your preferred 3D model viewer.''"

definition download_button :: "viewer_env \<Rightarrow> string \<Rightarrow> string \<Rightarrow> event list" where
  "download_button env file_path tag =
     (case open_rb env file_path of
        None \<Rightarrow> [DownloadButton (''Download '' @ tag @ '' file'')]
      | Some e \<Rightarrow> [Error (''Error loading 3D model file: '' @ e)])"

text \<open>
  The STL branch of \<^verbatim>\<open>browser_page\<close>: the normalised figure, or after any exception
  an error message and the figure of the fallback loader, whose own exception leaves the
  branch (\<open>Inl\<close>).
\<close>

definition stl_fallback :: "viewer_env \<Rightarrow> string \<Rightarrow> string \<Rightarrow> event list \<times> (string + mesh3d)" where
  "stl_fallback env file_path e =
     ([TrimeshLoad file_path, Error (''Error rendering the STL file: '' @ e), StlLoad file_path],
      case stl_load env file_path of
        Inl e2 \<Rightarrow> Inl e2
      | Inr xyz \<Rightarrow> Inr (fallback_figure xyz))"

definition browser_page_stl :: "viewer_env \<Rightarrow> string \<Rightarrow> event list \<times> (string + mesh3d)" where
  "browser_page_stl env file_path =
     (case trimesh_load env file_path of
        Inl e \<Rightarrow> stl_fallback env file_path e
      | Inr tm_mesh \<Rightarrow>
          (case normalize_mesh (center_mass env) tm_mesh of
             Inl e \<Rightarrow> stl_fallback env file_path e
           | Inr tm \<Rightarrow> ([TrimeshLoad file_path], Inr (trimesh_figure tm))))"

definition browser_page_preview :: "viewer_env \<Rightarrow> string \<Rightarrow> string \<Rightarrow> real \<Rightarrow> event list" where
  "browser_page_preview env selected_model_path color_option opacity_value =
     (let file_ext = lower (snd (splitext selected_model_path));
          tag = upper (drop 1 file_ext)
      in Write (''File format: '' @ tag) #
         (if file_ext = ''.stl'' then
            (case browser_page_stl env selected_model_path of
               (evs, Inl e) \<Rightarrow> evs @ [Error (''Error loading 3D model file: '' @ e)]
             | (evs, Inr fig) \<Rightarrow>
                 evs @
                 [PlotlyChart (update_style (intensity_declared env) color_option opacity_value fig)] @
                 download_button env selected_model_path tag)
          else Info (unsupported_message tag) # download_button env selected_model_path tag))"

definition display_model_details_preview :: "viewer_env \<Rightarrow> string \<Rightarrow> event list" where
  "display_model_details_preview env selected_model_path =
     (let file_ext = lower (snd (splitext selected_model_path));
          tag = upper (drop 1 file_ext)
      in Write (''File format: '' @ tag) #
         (if file_ext = ''.stl'' then
            StlLoad selected_model_path #
            (case stl_load env selected_model_path of
               Inl e \<Rightarrow> [Error (''Error loading 3D model file: '' @ e)]
             | Inr xyz \<Rightarrow>
                 PlotlyChart (fallback_figure xyz) # download_button env selected_model_path tag)
          else Info (unsupported_message tag) # download_button env selected_model_path tag))"

definition is_load :: "event \<Rightarrow> bool" where
  "is_load ev = (case ev of TrimeshLoad p \<Rightarrow> True | StlLoad p \<Rightarrow> True | _ \<Rightarrow> False)"

definition is_error :: "event \<Rightarrow> bool" where
  "is_error ev = (case ev of Error e \<Rightarrow> True | _ \<Rightarrow> False)"

section \<open>Example inputs\<close>

text \<open>The triangle of the specification's scenario, and a mesh whose vertices coincide.\<close>

definition triangle_mesh :: "real mesh" where
  "triangle_mesh = \<lparr>vertices = [(0, 0, 0), (2, 0, 0), (0, 2, 0)], faces = [(0, 1, 2)]\<rparr>"

definition point_mesh :: "real mesh" where
  "point_mesh = \<lparr>vertices = [(1, 2, 3)], faces = [(0, 0, 0)]\<rparr>"

text \<open>An environment in which both loaders fail and every file can be opened.\<close>

definition quiet_env :: viewer_env where
  "quiet_env =
     \<lparr>trimesh_load = (\<lambda>p. Inl ''unreadable''), center_mass = vertex_mean,
      stl_load = (\<lambda>p. Inl ''unreadable''), open_rb = (\<lambda>p. None),
      intensity_declared = True\<rparr>"

section \<open>Properties of thumbnail discovery\<close>


lemma fnmatch_star_star:
  "fnmatch n (CHR ''*'' # CHR ''*'' # p) = fnmatch n (CHR ''*'' # p)"
  by (induction n) auto


lemma path_join_nonempty: "b \<noteq> [] \<Longrightarrow> path_join a b \<noteq> []"
  by (simp add: path_join_def)



text \<open>
  The candidates of a glob: the entries, of either kind, whose name matches the pattern
  and does not begin with a dot.
\<close>

lemma glob_candidates:
  assumes "\<not> ishidden pattern"
  shows "set (glob directory entries pattern) =
           path_join (glob_dirname directory) `
             {n \<in> node_name ` set entries. \<not> ishidden n \<and> fnmatch n pattern}"
  using assms by (auto simp: glob_def glob1_def)





lemma get_model_info_thumbnail:
  "thumbnail_path (get_model_info read_file cwd model_path entries model_name) =
     find_thumbnail model_path entries (or_empty (extract_thing_id model_name))"
  by (simp add: get_model_info_def Let_def case_prod_beta)

lemmas thumb_eval = find_thumbnail_def search_strategies_def search_strategies_spec_def
  find_in_images_dir_def find_first_match_def glob_def glob1_def glob_dirname_def rstrip_sep_def
  path_join_def ishidden_def lookup_entry_def extract_thing_id_def or_empty_def is_digit_def
  strategy_candidates_def images_candidates_def image_extension_files_def file_names_def
  splitext_def rfind_def config_def




text \<open>
  Claim C3, as amended.  When the directory name holds no digit, the empty string takes
  the identifier's place, and the third strategy is not skipped: it searches the model
  root for \<^verbatim>\<open>*Thumbnail*.png\<close>, between the second and the fourth strategy.
\<close>

theorem thumbnail_absent_identifier:
  assumes "extract_thing_id model_name = None"
  shows "thumbnail_path (get_model_info read_file cwd model_path entries model_name) =
     try_strategies
       [\<lambda>_. find_in_images_dir model_path entries,
        \<lambda>_. find_first_match model_path entries ''*_Thumbnail*.png'',
        \<lambda>_. find_first_match model_path entries ''*Thumbnail*.png'',
        \<lambda>_. find_first_match model_path entries ''*.png'']"
proof -
  have "glob1 names ''**Thumbnail*.png'' = glob1 names ''*Thumbnail*.png''" for names
    unfolding glob1_def using fnmatch_star_star [of _ "''Thumbnail*.png''"]
    by (simp add: ishidden_def)
  then have "find_first_match model_path entries ''**Thumbnail*.png'' =
      find_first_match model_path entries ''*Thumbnail*.png''"
    by (simp add: find_first_match_def glob_def)
  then show ?thesis
    using assms
    by (simp add: get_model_info_thumbnail find_thumbnail_def search_strategies_def or_empty_def)
qed

text \<open>An instance: a model named \<^verbatim>\<open>widget\<close>, whose thumbnail the third strategy finds.\<close>

theorem thumbnail_absent_identifier_witness:
  "extract_thing_id ''widget'' = None \<and>
   thumbnail_path (get_model_info (\<lambda>p. Inr []) ''/'' ''m''
       [File ''a.png'', File ''aThumbnail.png''] ''widget'') =
     Some ''m/aThumbnail.png''"
proof -
  have h: "extract_thing_id ''widget'' = None"
    by (simp add: extract_thing_id_def is_digit_def)
  show ?thesis
    using h thumbnail_absent_identifier
      [OF h, of "\<lambda>p. Inr []" "''/''" "''m''" "[File ''a.png'', File ''aThumbnail.png'']"]
    by (simp add: thumb_eval)
qed

text \<open>
  Claim C3 as stated fails: for the model \<^verbatim>\<open>widget\<close> with the files \<^verbatim>\<open>a.png\<close> and
  \<^verbatim>\<open>aThumbnail.png\<close> the program returns \<^verbatim>\<open>aThumbnail.png\<close>, the match of the third
  strategy; going from the second strategy straight to the fourth gives \<^verbatim>\<open>a.png\<close>.
\<close>

theorem identifier_strategy_counterexample:
  "extract_thing_id ''widget'' = None \<and>
   thumbnail_path (get_model_info (\<lambda>p. Inr []) ''/'' ''m''
       [File ''a.png'', File ''aThumbnail.png''] ''widget'') =
     Some ''m/aThumbnail.png'' \<and>
   try_strategies (search_strategies_spec ''m'' [File ''a.png'', File ''aThumbnail.png'']
     (extract_thing_id ''widget'')) = Some ''m/a.png''"
  by (simp add: get_model_info_thumbnail thumb_eval)

section \<open>Properties of description discovery\<close>




lemma readme_patterns_nonempty: "pat \<in> set readme_patterns \<Longrightarrow> pat \<noteq> []"
  by (auto simp: readme_patterns_def)

lemma lowercase_patterns:
  "map lower readme_patterns =
     [''readme.txt'', ''readme.txt'', ''readme.txt'', ''readme.txt'',
      ''readme.md'', ''readme.md'', ''readme.md'', ''readme.md'',
      ''instructions.txt'', ''instructions.txt'',
      ''description.txt'', ''description.txt'']"
  by (simp add: readme_patterns_def lower_def lower_char_def)

lemma lower_readme_nonempty:
  assumes "lower f \<in> set (map lower readme_patterns)"
  shows "f \<noteq> []"
proof -
  from assms obtain pat where "pat \<in> set readme_patterns" "lower f = lower pat" by auto
  then show ?thesis using readme_patterns_nonempty by (auto simp: lower_def)
qed

lemma find_readme_nonempty:
  assumes "find_readme d es = Some p"
  shows "p \<noteq> []"
proof (cases "find (path_exists es) readme_patterns")
  case (Some pat)
  then have "pat \<in> set readme_patterns" by (auto simp: find_Some_iff)
  then have "pat \<noteq> []" by (rule readme_patterns_nonempty)
  moreover have "p = path_join d pat" using assms Some by (simp add: find_readme_def)
  ultimately show ?thesis by (simp add: path_join_nonempty)
next
  case None
  then obtain r f where
    fd: "find (\<lambda>(r, f). lower f \<in> set (map lower readme_patterns)) (walk_pairs (walk d es)) =
      Some (r, f)"
    and p: "p = path_join r f"
    using assms by (auto simp: find_readme_def Let_def split: option.splits)
  from fd have "lower f \<in> set (map lower readme_patterns)"
    by (auto simp: find_Some_iff)
  then have "f \<noteq> []" by (rule lower_readme_nonempty)
  then show ?thesis using p by (simp add: path_join_nonempty)
qed




text \<open>
  Claim C9.  When a description file was found and reading it fails, the scan of the
  model still returns its whole record: the description content is the string
  \<^verbatim>\<open>Error reading README: \<close> followed by the message of the failure, and the other
  fields are what discovery found.  A missing \<^verbatim>\<open>images\<close> directory makes the first
  thumbnail strategy find nothing.
\<close>

theorem readme_read_failure:
  assumes "find_readme model_path entries = Some p" and "read_file p = Inl e"
  shows "get_model_info read_file cwd model_path entries model_name =
       \<lparr>name = model_name, path = model_path,
        thing_id = extract_thing_id model_name,
        thumbnail_path = find_thumbnail model_path entries (or_empty (extract_thing_id model_name)),
        model_files = find_model_files cwd model_path entries,
        model_count = length (find_model_files cwd model_path entries),
        readme_path = Some p,
        readme_content = ''Error reading README: '' @ e\<rparr> \<and>
     (lookup_entry entries ''images'' = None \<longrightarrow> find_in_images_dir model_path entries = None)"
proof -
  have "p \<noteq> []" using assms(1) by (rule find_readme_nonempty)
  then have "get_readme_content read_file model_path entries =
      (Some p, ''Error reading README: '' @ e)"
    using assms by (simp add: get_readme_content_def)
  then show ?thesis
    by (simp add: get_model_info_def Let_def find_in_images_dir_def)
qed

text \<open>An instance: the description file exists and cannot be read.\<close>

theorem readme_read_failure_witness:
  "find_readme ''m'' [File ''readme.md'', File ''model.stl''] = Some ''m/readme.md'' \<and>
   readme_content (get_model_info (\<lambda>p. Inl ''[Errno 13] Permission denied'') ''/home/u'' ''m''
       [File ''readme.md'', File ''model.stl''] ''thing_1'') =
     ''Error reading README: [Errno 13] Permission denied'' \<and>
   lookup_entry [File ''readme.md'', File ''model.stl''] ''images'' = None \<and>
   find_in_images_dir ''m'' [File ''readme.md'', File ''model.stl''] = None"
proof -
  have h: "find_readme ''m'' [File ''readme.md'', File ''model.stl''] = Some ''m/readme.md''"
    by (simp add: find_readme_def path_exists_def lookup_entry_def path_join_def
        readme_patterns_def)
  have l: "lookup_entry [File ''readme.md'', File ''model.stl''] ''images'' = None"
    by (simp add: lookup_entry_def)
  show ?thesis
    using h l readme_read_failure [OF h, of "\<lambda>p. Inl ''[Errno 13] Permission denied''"
        "''[Errno 13] Permission denied''" "''/home/u''" "''thing_1''"]
    by simp
qed

section \<open>Properties of mesh normalisation\<close>

lemma coord_range_shift:
  assumes "cs \<noteq> []"
  shows "coord_range (map (\<lambda>a. a + t) cs) = coord_range cs"
proof -
  have fin: "finite (set cs)" "set cs \<noteq> {}" using assms by auto
  have "Max ((\<lambda>a. a + t) ` set cs) = Max (set cs) + t"
    using mono_Max_commute [of "\<lambda>a. a + t" "set cs"] fin by (simp add: mono_def)
  moreover have "Min ((\<lambda>a. a + t) ` set cs) = Min (set cs) + t"
    using mono_Min_commute [of "\<lambda>a. a + t" "set cs"] fin by (simp add: mono_def)
  ultimately show ?thesis by (simp add: coord_range_def)
qed

lemma coord_range_scale:
  assumes "cs \<noteq> []" "0 \<le> s"
  shows "coord_range (map (\<lambda>a. s * a) cs) = s * coord_range cs"
proof -
  have fin: "finite (set cs)" "set cs \<noteq> {}" using assms by auto
  have m: "mono (\<lambda>a::real. s * a)" using assms(2) by (simp add: mono_def mult_left_mono)
  have "Max ((\<lambda>a. s * a) ` set cs) = s * Max (set cs)"
    using mono_Max_commute [OF m fin] by simp
  moreover have "Min ((\<lambda>a. s * a) ` set cs) = s * Min (set cs)"
    using mono_Min_commute [OF m fin] by simp
  ultimately show ?thesis by (simp add: coord_range_def algebra_simps)
qed

lemma coord_range_nonneg: "cs \<noteq> [] \<Longrightarrow> 0 \<le> coord_range cs"
  by (simp add: coord_range_def)

lemma extents_translation:
  "extents (apply_translation t m) = extents m"
proof (cases "vertices m = []")
  case True
  then show ?thesis by (simp add: extents_def apply_translation_def split: prod.split)
next
  case False
  obtain tx ty tz where t: "t = (tx, ty, tz)" by (cases t) auto
  have v: "vertices (apply_translation t m) =
      map (\<lambda>(a, b, c). (a + tx, b + ty, c + tz)) (vertices m)"
    by (simp add: apply_translation_def t)
  have x: "map fst (vertices (apply_translation t m)) = map (\<lambda>a. a + tx) (map fst (vertices m))"
    unfolding v by (simp add: case_prod_beta)
  have y: "map (\<lambda>v. fst (snd v)) (vertices (apply_translation t m)) =
      map (\<lambda>a. a + ty) (map (\<lambda>v. fst (snd v)) (vertices m))"
    unfolding v by (simp add: case_prod_beta)
  have z: "map (\<lambda>v. snd (snd v)) (vertices (apply_translation t m)) =
      map (\<lambda>a. a + tz) (map (\<lambda>v. snd (snd v)) (vertices m))"
    unfolding v by (simp add: case_prod_beta)
  have ne: "vertices (apply_translation t m) \<noteq> []" using False unfolding v by simp
  show ?thesis
    unfolding extents_def x y z using False ne by (simp add: coord_range_shift del: map_map)
qed

lemma max_extent_centre: "max_extent (centre_mesh cm m) = max_extent m"
  by (simp add: max_extent_def centre_mesh_def extents_translation split: prod.split)

lemma vertices_centre: "vertices (centre_mesh cm m) = [] \<longleftrightarrow> vertices m = []"
  by (simp add: centre_mesh_def apply_translation_def split: prod.split)

lemma max_extent_nonneg: "0 \<le> max_extent m"
  by (auto simp: max_extent_def extents_def coord_range_nonneg max_def)

lemma max_extent_scale:
  assumes "0 \<le> s"
  shows "max_extent (scale_mesh s m) = s * max_extent m"
proof (cases "vertices m = []")
  case True
  then show ?thesis by (simp add: max_extent_def extents_def scale_mesh_def)
next
  case False
  have v: "vertices (scale_mesh s m) = map (\<lambda>(a, b, c). (s * a, s * b, s * c)) (vertices m)"
    by (simp add: scale_mesh_def)
  have x: "map fst (vertices (scale_mesh s m)) = map (\<lambda>a. s * a) (map fst (vertices m))"
    unfolding v by (simp add: case_prod_beta)
  have y: "map (\<lambda>v. fst (snd v)) (vertices (scale_mesh s m)) =
      map (\<lambda>a. s * a) (map (\<lambda>v. fst (snd v)) (vertices m))"
    unfolding v by (simp add: case_prod_beta)
  have z: "map (\<lambda>v. snd (snd v)) (vertices (scale_mesh s m)) =
      map (\<lambda>a. s * a) (map (\<lambda>v. snd (snd v)) (vertices m))"
    unfolding v by (simp add: case_prod_beta)
  have ne: "vertices (scale_mesh s m) \<noteq> []" using False unfolding v by simp
  have mx: "max (s * a) (max (s * b) (s * c)) = s * max a (max b c)" for a b c :: real
    using assms by (simp add: max_mult_distrib_left)
  show ?thesis
    unfolding max_extent_def extents_def x y z using False ne assms
    by (simp add: coord_range_scale mx del: map_map)
qed

lemma apply_scale_Fin: "apply_scale (Fin s) m = fin_mesh (scale_mesh s m)"
  by (simp add: apply_scale_def fin_mesh_def scale_mesh_def fl_mul_def case_prod_beta)

lemma apply_scale_PInf:
  "\<forall>(a, b, c) \<in> set (vertices (apply_scale PInf m)). \<not> is_finite a \<and> \<not> is_finite b \<and> \<not> is_finite c"
  by (auto simp: apply_scale_def fl_mul_def is_finite_def split: if_splits)

lemma normalize_mesh_scale:
  assumes "vertices m \<noteq> []"
  shows "normalize_mesh cm m = Inr (apply_scale (fl_div 100 (max_extent m)) (centre_mesh cm m))"
proof -
  obtain cx cy cz where c: "cm m = (cx, cy, cz)" by (cases "cm m") auto
  have cen: "centre_mesh cm m = apply_translation (- cx, - cy, - cz) m"
    by (simp add: centre_mesh_def c)
  have "extents (centre_mesh cm m) \<noteq> None"
    using assms vertices_centre [of cm m] by (simp add: extents_def)
  then obtain ex ey ez where e: "extents (centre_mesh cm m) = Some (ex, ey, ez)" by auto
  then have "max_extent m = max ex (max ey ez)"
    using max_extent_centre [of cm m] by (simp add: max_extent_def)
  then show ?thesis
    using e unfolding cen by (simp add: normalize_mesh_def c)
qed

text \<open>
  The scenario of the specification: for the triangle (0,0,0), (2,0,0), (0,2,0) and the
  vertex mean as centre, the centre is (2/3, 2/3, 0) and the scale factor is 50.
\<close>

lemma triangle_scenario:
  "vertex_mean triangle_mesh = (2/3, 2/3, 0) \<and>
   normalize_mesh vertex_mean triangle_mesh =
     Inr \<lparr>vertices = [(Fin (- (100/3)), Fin (- (100/3)), Fin 0), (Fin (200/3), Fin (- (100/3)), Fin 0),
       (Fin (- (100/3)), Fin (200/3), Fin 0)], faces = [(0, 1, 2)]\<rparr>"
  by (simp add: triangle_mesh_def normalize_mesh_def centre_mesh_def vertex_mean_def
      apply_translation_def extents_def coord_range_def fl_div_def apply_scale_def fl_mul_def
      fin_mesh_def)

text \<open>
  Claim C2, as amended.  Normalisation has no branch for degenerate geometry and reports
  no warning: it divides 100.0 by the largest extent of the centred mesh whatever that
  extent is.  For every mesh with at least one vertex it returns a mesh.  When the
  largest extent is not zero, this is the centred mesh scaled by 100 over that extent,
  whose largest extent is 100.  When all extents are zero, the scale is infinite and no
  coordinate of the returned mesh is a finite number.
\<close>

theorem normalize_mesh_outcome:
  assumes "vertices m \<noteq> []"
  shows "(max_extent m \<noteq> 0 \<longrightarrow>
        normalize_mesh cm m =
          Inr (fin_mesh (scale_mesh (100 / max_extent m) (centre_mesh cm m))) \<and>
        max_extent (scale_mesh (100 / max_extent m) (centre_mesh cm m)) = 100) \<and>
     (max_extent m = 0 \<longrightarrow>
        (\<exists>tm. normalize_mesh cm m = Inr tm \<and>
           (\<forall>(a, b, c) \<in> set (vertices tm).
              \<not> is_finite a \<and> \<not> is_finite b \<and> \<not> is_finite c)))"
proof (intro conjI impI)
  assume nz: "max_extent m \<noteq> 0"
  then show "normalize_mesh cm m =
      Inr (fin_mesh (scale_mesh (100 / max_extent m) (centre_mesh cm m)))"
    by (simp add: normalize_mesh_scale [OF assms] fl_div_def apply_scale_Fin)
  have "0 < max_extent m" using nz max_extent_nonneg [of m] by simp
  then show "max_extent (scale_mesh (100 / max_extent m) (centre_mesh cm m)) = 100"
    by (simp add: max_extent_scale max_extent_centre)
next
  assume z: "max_extent m = 0"
  have "normalize_mesh cm m = Inr (apply_scale PInf (centre_mesh cm m))"
    by (simp add: normalize_mesh_scale [OF assms] z fl_div_def)
  then show "\<exists>tm. normalize_mesh cm m = Inr tm \<and>
      (\<forall>(a, b, c) \<in> set (vertices tm). \<not> is_finite a \<and> \<not> is_finite b \<and> \<not> is_finite c)"
    using apply_scale_PInf by blast
qed

text \<open>Two instances: the triangle of the scenario, and a mesh of one point.\<close>

theorem normalize_mesh_outcome_witness:
  "vertices triangle_mesh \<noteq> [] \<and> max_extent triangle_mesh = 2 \<and>
   normalize_mesh vertex_mean triangle_mesh =
     Inr (fin_mesh (scale_mesh 50 (centre_mesh vertex_mean triangle_mesh))) \<and>
   max_extent (scale_mesh 50 (centre_mesh vertex_mean triangle_mesh)) = 100 \<and>
   vertices point_mesh \<noteq> [] \<and> max_extent point_mesh = 0 \<and>
   (\<exists>tm. normalize_mesh vertex_mean point_mesh = Inr tm \<and>
      (\<forall>(a, b, c) \<in> set (vertices tm). \<not> is_finite a \<and> \<not> is_finite b \<and> \<not> is_finite c))"
proof -
  have v: "vertices triangle_mesh \<noteq> []" by (simp add: triangle_mesh_def)
  have e: "max_extent triangle_mesh = 2"
    by (simp add: max_extent_def extents_def coord_range_def triangle_mesh_def)
  have v1: "vertices point_mesh \<noteq> []" by (simp add: point_mesh_def)
  have e1: "max_extent point_mesh = 0"
    by (simp add: max_extent_def extents_def coord_range_def point_mesh_def)
  show ?thesis
    using v e v1 e1 normalize_mesh_outcome [OF v, of vertex_mean]
      normalize_mesh_outcome [OF v1, of vertex_mean]
    by simp
qed

text \<open>
  Claim C2 as stated fails: for a mesh whose only vertex is (1,2,3), centred on that
  vertex, all extents are zero; the centred mesh has its vertex at the origin, but the
  mesh returned has the vertex (NaN, NaN, NaN): the rescaling was not skipped.
\<close>

theorem degenerate_mesh_counterexample:
  "vertices point_mesh \<noteq> [] \<and>
   extents (centre_mesh vertex_mean point_mesh) = Some (0, 0, 0) \<and>
   fin_mesh (centre_mesh vertex_mean point_mesh) =
     \<lparr>vertices = [(Fin 0, Fin 0, Fin 0)], faces = [(0, 0, 0)]\<rparr> \<and>
   normalize_mesh vertex_mean point_mesh =
     Inr \<lparr>vertices = [(NaN, NaN, NaN)], faces = [(0, 0, 0)]\<rparr>"
  by (simp add: point_mesh_def normalize_mesh_def centre_mesh_def vertex_mean_def
      apply_translation_def extents_def coord_range_def fl_div_def apply_scale_def fl_mul_def
      fin_mesh_def)

section \<open>Properties of the viewer\<close>





lemma download_button_events:
  "\<forall>ev \<in> set (download_button env file_path tag). \<not> is_load ev"
  "open_rb env file_path = None \<Longrightarrow> \<forall>ev \<in> set (download_button env file_path tag). \<not> is_error ev"
  by (auto simp: download_button_def is_load_def is_error_def split: option.splits)

text \<open>
  Claim C8.  For a model file whose lowercased extension is \<^verbatim>\<open>.obj\<close> or
  \<^verbatim>\<open>.3mf\<close>, a preview in either viewer writes the format, shows the information
  message that the preview is only available for download, and offers the download
  button; no mesh loader is called.  The message is an information message; when the
  file can be opened for the download button, no error message is shown at all.
\<close>

theorem unsupported_preview:
  assumes "lower (snd (splitext file_path)) = ext" and "ext = ''.obj'' \<or> ext = ''.3mf''"
  shows "browser_page_preview env file_path color_option ov =
       [Write (''File format: '' @ upper (drop 1 ext)), Info (unsupported_message (upper (drop 1 ext)))] @
       download_button env file_path (upper (drop 1 ext)) \<and>
     display_model_details_preview env file_path =
       [Write (''File format: '' @ upper (drop 1 ext)), Info (unsupported_message (upper (drop 1 ext)))] @
       download_button env file_path (upper (drop 1 ext)) \<and>
     (\<forall>ev \<in> set (browser_page_preview env file_path color_option ov). \<not> is_load ev) \<and>
     (\<forall>ev \<in> set (display_model_details_preview env file_path). \<not> is_load ev) \<and>
     (open_rb env file_path = None \<longrightarrow>
        (\<forall>ev \<in> set (browser_page_preview env file_path color_option ov). \<not> is_error ev) \<and>
        (\<forall>ev \<in> set (display_model_details_preview env file_path). \<not> is_error ev))"
proof -
  have ne: "ext \<noteq> ''.stl''" using assms(2) by auto
  have b: "browser_page_preview env file_path color_option ov =
       [Write (''File format: '' @ upper (drop 1 ext)), Info (unsupported_message (upper (drop 1 ext)))] @
       download_button env file_path (upper (drop 1 ext))"
    unfolding browser_page_preview_def Let_def assms(1) using ne by simp
  have d: "display_model_details_preview env file_path =
       [Write (''File format: '' @ upper (drop 1 ext)), Info (unsupported_message (upper (drop 1 ext)))] @
       download_button env file_path (upper (drop 1 ext))"
    unfolding display_model_details_preview_def Let_def assms(1) using ne by simp
  show ?thesis
    unfolding b d using download_button_events [of env file_path "upper (drop 1 ext)"]
    by (simp add: is_load_def is_error_def)
qed

text \<open>An instance: the preview of \<^verbatim>\<open>m/spin.obj\<close>.\<close>

theorem unsupported_preview_witness:
  "lower (snd (splitext ''m/spin.obj'')) = ''.obj'' \<and>
   browser_page_preview quiet_env ''m/spin.obj'' ''Viridis'' 1 =
     [Write ''File format: OBJ'', Info (unsupported_message ''OBJ''),
      DownloadButton ''Download OBJ file''] \<and>
   display_model_details_preview quiet_env ''m/spin.obj'' =
     [Write ''File format: OBJ'', Info (unsupported_message ''OBJ''),
      DownloadButton ''Download OBJ file'']"
proof -
  have s: "splitext ''m/spin.obj'' = (''m/spin'', ''.obj'')"
    by (simp add: splitext_def rfind_def)
  have h: "lower (snd (splitext ''m/spin.obj'')) = ''.obj''"
    unfolding s by (simp add: lower_def lower_char_def)
  have u: "upper (drop 1 ''.obj'') = ''OBJ''"
    by (simp add: upper_def upper_char_def)
  have o: "open_rb quiet_env ''m/spin.obj'' = None" by (simp add: quiet_env_def)
  show ?thesis
    using h unsupported_preview [OF h, of quiet_env "''Viridis''" 1]
    unfolding u by (simp add: download_button_def o)
qed

end
